theory Spec2Isabelle
  imports Complex_Main "HOL-Library.AList"
begin

section \<open>The instrumentation engine of dd-trace: a model of instrumenter.js\<close>

text \<open>
  The theory follows \<^verbatim>\<open>packages/dd-trace/src/instrumenter.js\<close>: the configuration
  resolver (\<^verbatim>\<open>getConfig\<close>), the wrap engine (\<^verbatim>\<open>wrap\<close>, \<^verbatim>\<open>wrapExport\<close>,
  \<^verbatim>\<open>getPrepatchWrappedFunction\<close>) and the orchestrator (\<^verbatim>\<open>use\<close>, \<^verbatim>\<open>enable\<close>,
  \<^verbatim>\<open>disable\<close>, \<^verbatim>\<open>load\<close>, \<^verbatim>\<open>unload\<close>, \<^verbatim>\<open>patch\<close>, \<^verbatim>\<open>unpatch\<close>, \<^verbatim>\<open>_set\<close>).
  Mutation is explicit state passing, a JavaScript exception is an \<open>error option\<close>
  returned beside the state reached when it was thrown, and every call the engine makes
  to a collaborator (an integration capability, the loader, the logger, the metrics sink)
  is recorded in a trace.
\<close>

subsection \<open>Configuration resolver\<close>

text \<open>
  A JavaScript number, as far as \<^verbatim>\<open>Math.min\<close> and \<^verbatim>\<open>Math.max\<close> look at it: not a
  number, an infinity or a finite value. Both operations return one of their arguments,
  so no rounding takes place and a finite double is represented by the real it denotes.
\<close>

datatype number = NaN | NegInfinity | Finite real | PosInfinity

fun math_max :: "number \<Rightarrow> number \<Rightarrow> number" where
  "math_max NaN y = NaN"
| "math_max x NaN = NaN"
| "math_max PosInfinity y = PosInfinity"
| "math_max x PosInfinity = PosInfinity"
| "math_max NegInfinity y = y"
| "math_max x NegInfinity = x"
| "math_max (Finite a) (Finite b) = Finite (max a b)"

fun math_min :: "number \<Rightarrow> number \<Rightarrow> number" where
  "math_min NaN y = NaN"
| "math_min x NaN = NaN"
| "math_min NegInfinity y = NegInfinity"
| "math_min x NegInfinity = NegInfinity"
| "math_min PosInfinity y = y"
| "math_min x PosInfinity = x"
| "math_min (Finite a) (Finite b) = Finite (min a b)"

fun isNaN :: "number \<Rightarrow> bool" where
  "isNaN NaN = True"
| "isNaN x = False"

text \<open>The \<^verbatim>\<open>analytics\<close> field of a configuration: a boolean or a sample rate.\<close>

datatype analytics_setting = AnalyticsBool bool | AnalyticsRate number

text \<open>
  A plugin configuration object, with the two fields the engine reads and writes; an
  absent field is \<open>None\<close>.
\<close>

record config =
  enabled :: "bool option"
  analytics :: "analytics_setting option"

definition empty_config :: config where
  "empty_config = \<lparr>enabled = None, analytics = None\<rparr>"

text \<open>
  What \<^verbatim>\<open>getConfig\<close> takes from modules that are not part of this file: the
  configuration source \<^verbatim>\<open>platform.env\<close> (a lookup that is \<open>None\<close> for
  \<^verbatim>\<open>undefined\<close>), the parsers \<^verbatim>\<open>isTrue\<close> and \<^verbatim>\<open>isFalse\<close> of \<^verbatim>\<open>./util\<close>, applied to
  a value that may be \<^verbatim>\<open>undefined\<close>, and the conversion of a string to a number that
  \<^verbatim>\<open>Math.max\<close> applies to its argument. They are parameters of the model.
\<close>

record config_source =
  env :: "string \<Rightarrow> string option"
  isTrue :: "string option \<Rightarrow> bool"
  isFalse :: "string option \<Rightarrow> bool"
  stringToNumber :: "string \<Rightarrow> number"

text \<open>\<^verbatim>\<open>String.prototype.toUpperCase\<close> and the replacement of \<^verbatim>\<open>/[^a-z0-9_]/ig\<close>, on ASCII text.\<close>

definition is_lower :: "char \<Rightarrow> bool" where
  "is_lower c = (97 \<le> (of_char c :: nat) \<and> (of_char c :: nat) \<le> 122)"

definition is_upper :: "char \<Rightarrow> bool" where
  "is_upper c = (65 \<le> (of_char c :: nat) \<and> (of_char c :: nat) \<le> 90)"

definition is_digit :: "char \<Rightarrow> bool" where
  "is_digit c = (48 \<le> (of_char c :: nat) \<and> (of_char c :: nat) \<le> 57)"

definition upper_char :: "char \<Rightarrow> char" where
  "upper_char c = (if is_lower c then char_of ((of_char c :: nat) - 32) else c)"

definition lower_char :: "char \<Rightarrow> char" where
  "lower_char c = (if is_upper c then char_of ((of_char c :: nat) + 32) else c)"

definition toUpperCase :: "string \<Rightarrow> string" where
  "toUpperCase s = map upper_char s"

definition toLowerCase :: "string \<Rightarrow> string" where
  "toLowerCase s = map lower_char s"

definition replace_non_word :: "string \<Rightarrow> string" where
  "replace_non_word s =
     map (\<lambda>c. if is_lower c \<or> is_upper c \<or> is_digit c \<or> c = CHR ''_'' then c else CHR ''_'') s"

definition cleanEnv :: "config_source \<Rightarrow> string \<Rightarrow> string option" where
  "cleanEnv S name = env S (replace_non_word (''DD_TRACE_'' @ toUpperCase name))"

text \<open>The number \<^verbatim>\<open>Math.max\<close> sees for a looked-up value: \<^verbatim>\<open>undefined\<close> converts to NaN.\<close>

definition toNumber :: "config_source \<Rightarrow> string option \<Rightarrow> number" where
  "toNumber S v = (case v of None \<Rightarrow> NaN | Some s \<Rightarrow> stringToNumber S s)"

text \<open>
  \<^verbatim>\<open>getConfig (name, config = {})\<close>. The second argument is \<open>None\<close> when the caller
  passes none (or \<^verbatim>\<open>undefined\<close>); a name is falsy when it is the empty string.
\<close>

definition getConfig :: "config_source \<Rightarrow> string \<Rightarrow> config option \<Rightarrow> config" where
  "getConfig S name config_arg =
     (let config = (case config_arg of None \<Rightarrow> empty_config | Some c \<Rightarrow> c) in
      if name = [] then config
      else
        let enabled_env = cleanEnv S (name @ ''_ENABLED'');
            config = (if enabled_env \<noteq> None then config\<lparr>enabled := Some (isTrue S enabled_env)\<rparr>
                      else config);
            analyticsEnabled = cleanEnv S (name @ ''_ANALYTICS_ENABLED'');
            analyticsSampleRate =
              math_min (math_max (toNumber S (cleanEnv S (name @ ''_ANALYTICS_SAMPLE_RATE'')))
                          (Finite 0)) (Finite 1)
        in if isFalse S analyticsEnabled then config\<lparr>analytics := Some (AnalyticsBool False)\<rparr>
           else if \<not> isNaN analyticsSampleRate
             then config\<lparr>analytics := Some (AnalyticsRate analyticsSampleRate)\<rparr>
           else if isTrue S analyticsEnabled then config\<lparr>analytics := Some (AnalyticsBool True)\<rparr>
           else config)"

subsection \<open>Objects, functions and the heap\<close>

text \<open>
  The wrap engine mutates function objects and the objects that hold them, so they live
  in an explicit store: an address is an index into the list of objects, and a new object
  is appended. Property lookup is on own properties.
\<close>

datatype key = StrKey string | SymKey nat

datatype val = Undefined | Null | Bool bool | Ref nat

datatype error = TypeError | Error string

text \<open>
  The code of a callable object: a function of the instrumented library, the function a
  wrapper factory returned for an original, the closure \<^verbatim>\<open>prepatchWrapped\<close> over
  \<^verbatim>\<open>fn\<close>, or the closure \<^verbatim>\<open>shim\<close> of \<^verbatim>\<open>wrapExport\<close> over \<^verbatim>\<open>moduleExports\<close>.
\<close>

datatype code = Native nat | Layer nat val | PrepatchWrapped val | ExportShim val

record property =
  prop_val :: val
  enumerable :: bool

record obj =
  props :: "(key \<times> property) list"
  body :: "code option"

text \<open>
  Besides the objects, the heap keeps the calls made to the interception primitive
  \<^verbatim>\<open>shimmer.wrap\<close>, each with its target and member name.
\<close>

record heap =
  objects :: "obj list"
  shimmer_log :: "(val \<times> string) list"

definition deref :: "heap \<Rightarrow> nat \<Rightarrow> obj option" where
  "deref h a = (if a < length (objects h) then Some (objects h ! a) else None)"

definition own :: "heap \<Rightarrow> nat \<Rightarrow> key \<Rightarrow> property option" where
  "own h a k = (case deref h a of None \<Rightarrow> None | Some ob \<Rightarrow> map_of (props ob) k)"

text \<open>\<^verbatim>\<open>v[k]\<close>: reading a property of \<^verbatim>\<open>undefined\<close> or \<^verbatim>\<open>null\<close> throws.\<close>

definition get :: "heap \<Rightarrow> val \<Rightarrow> key \<Rightarrow> error + val" where
  "get h v k =
     (case v of
        Undefined \<Rightarrow> Inl TypeError
      | Null \<Rightarrow> Inl TypeError
      | Bool b \<Rightarrow> Inr Undefined
      | Ref a \<Rightarrow> (case own h a k of None \<Rightarrow> Inr Undefined | Some p \<Rightarrow> Inr (prop_val p)))"

text \<open>\<^verbatim>\<open>typeof v === 'function'\<close>.\<close>

definition is_function :: "heap \<Rightarrow> val \<Rightarrow> bool" where
  "is_function h v =
     (case v of
        Ref a \<Rightarrow> (case deref h a of None \<Rightarrow> False | Some ob \<Rightarrow> body ob \<noteq> None)
      | _ \<Rightarrow> False)"


definition update_obj :: "heap \<Rightarrow> nat \<Rightarrow> (obj \<Rightarrow> obj) \<Rightarrow> heap" where
  "update_obj h a f =
     (if a < length (objects h) then h\<lparr>objects := (objects h)[a := f (objects h ! a)]\<rparr> else h)"

text \<open>\<^verbatim>\<open>Object.defineProperty(o, k, {value: v, configurable: true})\<close>: not enumerable.\<close>

definition defineProperty :: "heap \<Rightarrow> val \<Rightarrow> key \<Rightarrow> property \<Rightarrow> error + heap" where
  "defineProperty h v k p =
     (case v of
        Ref a \<Rightarrow> Inr (update_obj h a (\<lambda>ob. ob\<lparr>props := AList.update k p (props ob)\<rparr>))
      | _ \<Rightarrow> Inl TypeError)"

text \<open>
  \<^verbatim>\<open>o[k] = v\<close> on an object: an existing property keeps its attributes, a new one is
  enumerable.
\<close>

definition assign :: "heap \<Rightarrow> nat \<Rightarrow> key \<Rightarrow> val \<Rightarrow> heap" where
  "assign h a k v =
     update_obj h a (\<lambda>ob. ob\<lparr>props :=
        AList.update k (case map_of (props ob) k of
                          None \<Rightarrow> \<lparr>prop_val = v, enumerable = True\<rparr>
                        | Some p \<Rightarrow> p\<lparr>prop_val := v\<rparr>) (props ob)\<rparr>)"

definition alloc :: "heap \<Rightarrow> obj \<Rightarrow> nat \<times> heap" where
  "alloc h ob = (length (objects h), h\<lparr>objects := objects h @ [ob]\<rparr>)"

text \<open>\<^verbatim>\<open>Reflect.ownKeys(v)\<close>, which throws on a value that is not an object.\<close>

definition ownKeys :: "heap \<Rightarrow> val \<Rightarrow> error + key list" where
  "ownKeys h v =
     (case v of
        Ref a \<Rightarrow> (case deref h a of None \<Rightarrow> Inr [] | Some ob \<Rightarrow> Inr (map fst (props ob)))
      | _ \<Rightarrow> Inl TypeError)"

subsection \<open>Wrap engine\<close>

text \<open>
  \<^verbatim>\<open>getPrepatchWrappedFunction (fn)\<close>: a new function \<^verbatim>\<open>prepatchWrapped\<close> whose own
  property \<^verbatim>\<open>_datadog_wrapped\<close> is \<^verbatim>\<open>fn\<close>.
\<close>

definition getPrepatchWrappedFunction :: "val \<Rightarrow> heap \<Rightarrow> val \<times> heap" where
  "getPrepatchWrappedFunction fn h =
     (let (a, h') = alloc h \<lparr>props = [(StrKey ''_datadog_wrapped'', \<lparr>prop_val = fn, enumerable = True\<rparr>)],
                            body = Some (PrepatchWrapped fn)\<rparr>
      in (Ref a, h'))"

text \<open>
  The wrapper factory passed to \<^verbatim>\<open>wrap\<close>. \<open>Factory k\<close> is an integration's factory: it
  returns a new function, with no own property, that runs behaviour \<open>k\<close> around the
  original it was given. \<open>PrepatchFactory\<close> is \<^verbatim>\<open>getPrepatchWrappedFunction\<close>, the factory
  \<^verbatim>\<open>prepatch\<close> passes.
\<close>

datatype wrapper = Factory nat | PrepatchFactory

fun apply_wrapper :: "wrapper \<Rightarrow> val \<Rightarrow> heap \<Rightarrow> val \<times> heap" where
  "apply_wrapper (Factory k) original h =
     (let (a, h') = alloc h \<lparr>props = [], body = Some (Layer k original)\<rparr> in (Ref a, h'))"
| "apply_wrapper PrepatchFactory original h = getPrepatchWrappedFunction original h"

text \<open>
  The function \<^verbatim>\<open>wrap\<close> hands to \<^verbatim>\<open>shimmer.wrap\<close>: it applies the factory and copies
  onto the result the symbol-keyed own properties of the original that the result lacks.
\<close>

definition copy_symbol :: "nat \<Rightarrow> key \<times> property \<Rightarrow> heap \<Rightarrow> heap" where
  "copy_symbol b kp h =
     (case fst kp of
        StrKey s \<Rightarrow> h
      | SymKey n \<Rightarrow>
          if own h b (fst kp) \<noteq> None then h
          else update_obj h b (\<lambda>w. w\<lparr>props := AList.update (fst kp) (snd kp) (props w)\<rparr>))"

definition copy_symbols :: "val \<Rightarrow> val \<Rightarrow> heap \<Rightarrow> heap" where
  "copy_symbols original wrapped h =
     (case (original, wrapped) of
        (Ref a, Ref b) \<Rightarrow>
          (case deref h a of
             None \<Rightarrow> h
           | Some ob \<Rightarrow> fold (copy_symbol b) (props ob) h)
      | _ \<Rightarrow> h)"

definition wrap_callback :: "wrapper \<Rightarrow> val \<Rightarrow> heap \<Rightarrow> val \<times> heap" where
  "wrap_callback w original h =
     (let (wrapped, h1) = apply_wrapper w original h in (wrapped, copy_symbols original wrapped h1))"

text \<open>
  Modelled from the spec: \<^verbatim>\<open>shimmer.wrap\<close>, the interception primitive of the package
  \<^verbatim>\<open>shimmer\<close>, which is not part of the sources. It replaces the member of the target by
  what the given function returns for the current member; the call is logged.
\<close>

definition shimmer_wrap :: "val \<Rightarrow> string \<Rightarrow> wrapper \<Rightarrow> heap \<Rightarrow> error option \<times> heap" where
  "shimmer_wrap nodule name w h =
     (let h0 = h\<lparr>shimmer_log := shimmer_log h @ [(nodule, name)]\<rparr> in
      case get h0 nodule (StrKey name) of
        Inl e \<Rightarrow> (Some e, h0)
      | Inr original \<Rightarrow>
          (let (wrapped, h1) = wrap_callback w original h0 in
           case nodule of
             Ref n \<Rightarrow> (None, assign h1 n (StrKey name) wrapped)
           | _ \<Rightarrow> (None, h1)))"

text \<open>The first pair of loops of \<^verbatim>\<open>wrap\<close>: every member of every target is a function.\<close>

fun validate_names :: "heap \<Rightarrow> val \<Rightarrow> string list \<Rightarrow> error option" where
  "validate_names h nodule [] = None"
| "validate_names h nodule (name # names) =
     (case get h nodule (StrKey name) of
        Inl e \<Rightarrow> Some e
      | Inr v \<Rightarrow>
          if \<not> is_function h v then Some (Error ''Expected object to contain method.'')
          else validate_names h nodule names)"

fun validate :: "heap \<Rightarrow> val list \<Rightarrow> string list \<Rightarrow> error option" where
  "validate h [] names = None"
| "validate h (nodule # nodules) names =
     (case validate_names h nodule names of
        Some e \<Rightarrow> Some e
      | None \<Rightarrow> validate h nodules names)"

text \<open>
  How the body of the second pair of loops ends: it falls through to the next
  iteration, executes the \<^verbatim>\<open>return\<close> of line 144, or throws.
\<close>

datatype outcome = Normal | Returned | Throw error

definition wrap_member :: "val \<Rightarrow> wrapper \<Rightarrow> string \<Rightarrow> heap \<Rightarrow> outcome \<times> heap" where
  "wrap_member nodule w name h =
     (case get h nodule (StrKey name) of
        Inl e \<Rightarrow> (Throw e, h)
      | Inr f \<Rightarrow>
          (case defineProperty h f (StrKey ''_datadog_patched'')
                  \<lparr>prop_val = Bool True, enumerable = False\<rparr> of
             Inl e \<Rightarrow> (Throw e, h)
           | Inr h1 \<Rightarrow>
               (case get h1 nodule (StrKey name) of
                  Inl e \<Rightarrow> (Throw e, h1)
                | Inr f1 \<Rightarrow>
                    (case ownKeys h1 f1 of
                       Inl e \<Rightarrow> (Throw e, h1)
                     | Inr ks \<Rightarrow>
                         if StrKey ''_datadog_wrapped'' \<in> set ks then
                           (case get h1 f1 (StrKey ''_datadog_wrapped'') of
                              Inl e \<Rightarrow> (Throw e, h1)
                            | Inr current \<Rightarrow>
                                (let (wrapped, h2) = apply_wrapper w current h1 in
                                 case f1 of
                                   Ref a \<Rightarrow> (Returned, assign h2 a (StrKey ''_datadog_wrapped'') wrapped)
                                 | _ \<Rightarrow> (Throw TypeError, h2)))
                         else
                           (case shimmer_wrap nodule name w h1 of
                              (Some e, h2) \<Rightarrow> (Throw e, h2)
                            | (None, h2) \<Rightarrow> (Normal, h2))))))"

fun wrap_names :: "val \<Rightarrow> wrapper \<Rightarrow> string list \<Rightarrow> heap \<Rightarrow> outcome \<times> heap" where
  "wrap_names nodule w [] h = (Normal, h)"
| "wrap_names nodule w (name # names) h =
     (case wrap_member nodule w name h of
        (Normal, h') \<Rightarrow> wrap_names nodule w names h'
      | (Returned, h') \<Rightarrow> (Returned, h')
      | (Throw e, h') \<Rightarrow> (Throw e, h'))"

fun wrap_nodules :: "val list \<Rightarrow> wrapper \<Rightarrow> string list \<Rightarrow> heap \<Rightarrow> outcome \<times> heap" where
  "wrap_nodules [] w names h = (Normal, h)"
| "wrap_nodules (nodule # nodules) w names h =
     (case wrap_names nodule w names h of
        (Normal, h') \<Rightarrow> wrap_nodules nodules w names h'
      | (Returned, h') \<Rightarrow> (Returned, h')
      | (Throw e, h') \<Rightarrow> (Throw e, h'))"

text \<open>
  \<^verbatim>\<open>wrap (nodules, names, wrapper)\<close>, on the lists \<^verbatim>\<open>[].concat\<close> makes of its first two
  arguments. The result is the error thrown, if any, and the heap reached.
\<close>

definition wrap :: "val list \<Rightarrow> string list \<Rightarrow> wrapper \<Rightarrow> heap \<Rightarrow> error option \<times> heap" where
  "wrap nodules names w h =
     (case validate h nodules names of
        Some e \<Rightarrow> (Some e, h)
      | None \<Rightarrow>
          (case wrap_nodules nodules w names h of
             (Throw e, h') \<Rightarrow> (Some e, h')
           | (Normal, h') \<Rightarrow> (None, h')
           | (Returned, h') \<Rightarrow> (None, h')))"

text \<open>
  \<^verbatim>\<open>wrapExport (moduleExports, wrapper)\<close>; here \<^verbatim>\<open>wrapper\<close> is the function the shim will
  call. \<^verbatim>\<open>Object.keys\<close> lists the enumerable own properties with a string key.
\<close>

definition enumerable_keys :: "obj \<Rightarrow> key list" where
  "enumerable_keys ob =
     map fst (filter (\<lambda>(k, p). enumerable p \<and> (case k of StrKey s \<Rightarrow> True | SymKey n \<Rightarrow> False))
                (props ob))"

definition wrapExport :: "val \<Rightarrow> val \<Rightarrow> heap \<Rightarrow> val \<times> heap" where
  "wrapExport moduleExports wrapper_fn h =
     (if \<not> is_function h moduleExports then (moduleExports, h)
      else
        (case moduleExports of
           Ref a \<Rightarrow>
             (case deref h a of
                None \<Rightarrow> (moduleExports, h)
              | Some ob \<Rightarrow>
                  (let (shim, h1) = alloc h \<lparr>props = [], body = Some (ExportShim moduleExports)\<rparr>;
                       h2 = fold (\<lambda>k h'. case get h' moduleExports k of
                                            Inl e \<Rightarrow> h'
                                          | Inr v \<Rightarrow> assign h' shim k v)
                              (enumerable_keys ob) h1;
                       h3 = assign h2 a (StrKey ''_datadog_wrapper'') wrapper_fn
                   in (Ref shim, h3)))
         | _ \<Rightarrow> (moduleExports, h)))"



subsection \<open>Orchestrator\<close>

text \<open>
  An entry of the catalog \<^verbatim>\<open>platform.plugins\<close> is one instrumentation object or an
  array of them; a lookup that finds nothing is \<^verbatim>\<open>undefined\<close>. Objects and arrays are
  map keys by identity, which is the number they carry.
\<close>

datatype plugin = PluginUndefined | Instrumentation nat | Bundle nat "nat list"

text \<open>\<^verbatim>\<open>[].concat(plugin)\<close>: the elements of an array, any other value alone.\<close>

fun concat_plugin :: "plugin \<Rightarrow> plugin list" where
  "concat_plugin (Bundle b ks) = map Instrumentation ks"
| "concat_plugin p = [p]"

record meta =
  meta_name :: string
  meta_config :: config

text \<open>An exports object, by identity.\<close>

type_synonym exports = nat

text \<open>The calls the orchestrator makes to its collaborators, in the order it makes them.\<close>

datatype effect =
    PatchCalled nat exports config
  | UnpatchCalled nat exports
  | LoaderReload "(plugin \<times> meta) list"
  | LoaderPreload "(plugin \<times> meta) list"
  | LogDebug string
  | LogError error
  | MetricBoolean string bool string
  | MetricIncrement string

text \<open>
  The collaborators: the catalog (an object, so a list of keys and values), the
  configuration source, the \<^verbatim>\<open>patch\<close> and \<^verbatim>\<open>unpatch\<close> capabilities of each
  instrumentation, which act on a world \<open>'w\<close> outside the orchestrator and may throw, and
  of the loader the exports objects already loaded for an instrumentation (finding them
  may throw) and whether it has a \<^verbatim>\<open>preload\<close>.
\<close>

record 'w collaborators =
  plugins :: "(string \<times> plugin) list"
  source :: config_source
  patch_cap :: "nat \<Rightarrow> exports \<Rightarrow> config \<Rightarrow> 'w \<Rightarrow> error option \<times> 'w"
  unpatch_cap :: "nat \<Rightarrow> exports \<Rightarrow> 'w \<Rightarrow> error option \<times> 'w"
  modules_of :: "plugin \<Rightarrow> error + exports list"
  has_preload :: bool

text \<open>
  The fields of an \<^verbatim>\<open>Instrumenter\<close>. A \<^verbatim>\<open>Map\<close> and a \<^verbatim>\<open>Set\<close> iterate in insertion
  order: the registry \<^verbatim>\<open>_plugins\<close> and \<^verbatim>\<open>_instrumented\<close> are association lists, the
  set of exports of an instrumentation a list without repetition.
\<close>

record 'w instrumenter =
  p_enabled :: bool
  p_plugins :: "(plugin \<times> meta) list"
  p_instrumented :: "(plugin \<times> exports list) list"
  p_disabledPlugins :: "string set"
  world :: 'w
  effects :: "effect list"

text \<open>The double quote of the log messages.\<close>

definition dquote :: string where
  "dquote = [CHR 0x22]"

definition emit :: "effect \<Rightarrow> 'w instrumenter \<Rightarrow> 'w instrumenter" where
  "emit x st = st\<lparr>effects := effects st @ [x]\<rparr>"

text \<open>
  \<^verbatim>\<open>collectDisabledPlugins\<close>: the value split at commas, each part trimmed of the
  ASCII white space around it. An absent or empty value gives the empty set.
\<close>

fun split_commas :: "string \<Rightarrow> string list" where
  "split_commas [] = [[]]"
| "split_commas (c # cs) =
     (if c = CHR '','' then [] # split_commas cs
      else (case split_commas cs of [] \<Rightarrow> [[c]] | part # parts \<Rightarrow> (c # part) # parts))"

definition is_space :: "char \<Rightarrow> bool" where
  "is_space c = ((of_char c :: nat) = 32 \<or> (9 \<le> (of_char c :: nat) \<and> (of_char c :: nat) \<le> 13))"

definition trim :: "string \<Rightarrow> string" where
  "trim s = rev (dropWhile is_space (rev (dropWhile is_space s)))"

definition collectDisabledPlugins :: "config_source \<Rightarrow> string set" where
  "collectDisabledPlugins S =
     (case env S ''DD_TRACE_DISABLED_PLUGINS'' of
        None \<Rightarrow> {}
      | Some v \<Rightarrow> if v = [] then {} else set (map trim (split_commas v)))"

text \<open>\<^verbatim>\<open>plugins[key]\<close>.\<close>

definition lookup_plugin :: "'w collaborators \<Rightarrow> string \<Rightarrow> plugin" where
  "lookup_plugin C k = (case map_of (plugins C) k of None \<Rightarrow> PluginUndefined | Some p \<Rightarrow> p)"

text \<open>
  \<^verbatim>\<open>instrumentation.patch.call(this, moduleExports, this._tracer._tracer, config)\<close>: a
  value that is not an instrumentation object has no \<^verbatim>\<open>patch\<close> to call.
\<close>

definition call_patch ::
  "'w collaborators \<Rightarrow> plugin \<Rightarrow> exports \<Rightarrow> config \<Rightarrow> 'w instrumenter \<Rightarrow> error option \<times> 'w instrumenter" where
  "call_patch C instrumentation moduleExports cfg st =
     (case instrumentation of
        Instrumentation k \<Rightarrow>
          (let (r, w) = patch_cap C k moduleExports cfg (world st)
           in (r, emit (PatchCalled k moduleExports cfg) (st\<lparr>world := w\<rparr>)))
      | _ \<Rightarrow> (Some TypeError, st))"

text \<open>The exports objects recorded for an instrumentation, none when it has no entry.\<close>

definition instrumented_of :: "'w instrumenter \<Rightarrow> plugin \<Rightarrow> exports list" where
  "instrumented_of st i = (case map_of (p_instrumented st) i of None \<Rightarrow> [] | Some es \<Rightarrow> es)"

text \<open>\<^verbatim>\<open>patch (instrumentation, moduleExports, config)\<close>.\<close>

definition patch ::
  "'w collaborators \<Rightarrow> plugin \<Rightarrow> exports \<Rightarrow> config \<Rightarrow> 'w instrumenter \<Rightarrow> error option \<times> 'w instrumenter" where
  "patch C instrumentation moduleExports cfg st =
     (let st1 = (case map_of (p_instrumented st) instrumentation of
                   None \<Rightarrow> st\<lparr>p_instrumented := AList.update instrumentation [] (p_instrumented st)\<rparr>
                 | Some es \<Rightarrow> st);
          instrumented = instrumented_of st1 instrumentation
      in if moduleExports \<notin> set instrumented then
           call_patch C instrumentation moduleExports cfg
             (st1\<lparr>p_instrumented :=
                    AList.update instrumentation (instrumented @ [moduleExports]) (p_instrumented st1)\<rparr>)
         else (None, st1))"

text \<open>
  The body of the loop of \<^verbatim>\<open>unpatch\<close>: the capability is called inside \<^verbatim>\<open>try\<close>, and
  what it throws is logged.
\<close>

definition unpatch_one :: "'w collaborators \<Rightarrow> plugin \<Rightarrow> exports \<Rightarrow> 'w instrumenter \<Rightarrow> 'w instrumenter" where
  "unpatch_one C instrumentation moduleExports st =
     (case instrumentation of
        Instrumentation k \<Rightarrow>
          (let (r, w) = unpatch_cap C k moduleExports (world st);
               st1 = emit (UnpatchCalled k moduleExports) (st\<lparr>world := w\<rparr>)
           in (case r of None \<Rightarrow> st1 | Some e \<Rightarrow> emit (LogError e) st1))
      | _ \<Rightarrow> emit (LogError TypeError) st)"

text \<open>\<^verbatim>\<open>unpatch (instrumentation)\<close>.\<close>

definition unpatch :: "'w collaborators \<Rightarrow> plugin \<Rightarrow> 'w instrumenter \<Rightarrow> 'w instrumenter" where
  "unpatch C instrumentation st =
     (case map_of (p_instrumented st) instrumentation of
        None \<Rightarrow> st
      | Some es \<Rightarrow> fold (unpatch_one C instrumentation) es st)"

text \<open>\<^verbatim>\<open>unload (plugin)\<close>.\<close>

definition unload_instrumentation :: "'w collaborators \<Rightarrow> plugin \<Rightarrow> 'w instrumenter \<Rightarrow> 'w instrumenter" where
  "unload_instrumentation C instrumentation st =
     (let st1 = unpatch C instrumentation st
      in st1\<lparr>p_instrumented := AList.delete instrumentation (p_instrumented st1)\<rparr>)"

definition unload :: "'w collaborators \<Rightarrow> plugin \<Rightarrow> 'w instrumenter \<Rightarrow> 'w instrumenter" where
  "unload C plugin st =
     (let st1 = fold (unload_instrumentation C) (concat_plugin plugin) st
      in case map_of (p_plugins st1) plugin of
           None \<Rightarrow> st1
         | Some m \<Rightarrow>
             emit (MetricBoolean ''datadog.tracer.node.plugin.enabled.by.name'' False
                     (''name:'' @ meta_name m))
               (st1\<lparr>p_plugins := AList.delete plugin (p_plugins st1)\<rparr>))"

text \<open>
  Modelled from the spec: \<^verbatim>\<open>Loader.load\<close> of \<^verbatim>\<open>platform.Loader\<close>, which is not part of
  the sources. For the exports objects already loaded that match the instrumentation it
  invokes the orchestrator's \<^verbatim>\<open>patch\<close>, in order; what \<^verbatim>\<open>patch\<close> throws ends the call.
\<close>

fun patch_all ::
  "'w collaborators \<Rightarrow> plugin \<Rightarrow> config \<Rightarrow> exports list \<Rightarrow> 'w instrumenter \<Rightarrow> error option \<times> 'w instrumenter" where
  "patch_all C instrumentation cfg [] st = (None, st)"
| "patch_all C instrumentation cfg (e # es) st =
     (case patch C instrumentation e cfg st of
        (Some err, st') \<Rightarrow> (Some err, st')
      | (None, st') \<Rightarrow> patch_all C instrumentation cfg es st')"

definition loader_load ::
  "'w collaborators \<Rightarrow> plugin \<Rightarrow> config \<Rightarrow> 'w instrumenter \<Rightarrow> error option \<times> 'w instrumenter" where
  "loader_load C instrumentation cfg st =
     (case modules_of C instrumentation of
        Inl err \<Rightarrow> (Some err, st)
      | Inr es \<Rightarrow> patch_all C instrumentation cfg es st)"

text \<open>
  Modelled from the spec: \<^verbatim>\<open>Loader.reload\<close> and \<^verbatim>\<open>Loader.preload\<close>, which receive a
  registry; the call is recorded.
\<close>

definition loader_reload :: "'w instrumenter \<Rightarrow> 'w instrumenter" where
  "loader_reload st = emit (LoaderReload (p_plugins st)) st"

text \<open>The \<^verbatim>\<open>try\<close> block of \<^verbatim>\<open>load\<close>: \<^verbatim>\<open>forEach\<close> stops at the first throw.\<close>

fun load_all ::
  "'w collaborators \<Rightarrow> plugin list \<Rightarrow> config \<Rightarrow> 'w instrumenter \<Rightarrow> error option \<times> 'w instrumenter" where
  "load_all C [] cfg st = (None, st)"
| "load_all C (i # is) cfg st =
     (case loader_load C i cfg st of
        (Some err, st') \<Rightarrow> (Some err, st')
      | (None, st') \<Rightarrow> load_all C is cfg st')"

definition enabled_metric :: "meta \<Rightarrow> effect" where
  "enabled_metric m =
     MetricBoolean ''datadog.tracer.node.plugin.enabled.by.name''
       (enabled (meta_config m) \<noteq> Some False) (''name:'' @ meta_name m)"

definition load_step ::
  "'w collaborators \<Rightarrow> plugin \<Rightarrow> meta \<Rightarrow> 'w instrumenter \<Rightarrow> error option \<times> 'w instrumenter" where
  "load_step C plugin m st = load_all C (concat_plugin plugin) (meta_config m) (emit (enabled_metric m) st)"

text \<open>\<^verbatim>\<open>load (plugin, meta)\<close>: the \<^verbatim>\<open>catch\<close> block logs, unloads and counts the error.\<close>

definition load ::
  "'w collaborators \<Rightarrow> plugin \<Rightarrow> meta \<Rightarrow> 'w instrumenter \<Rightarrow> error option \<times> 'w instrumenter" where
  "load C plugin m st =
     (if \<not> p_enabled st then (None, st)
      else
        (case load_step C plugin m st of
           (None, st') \<Rightarrow> (None, st')
         | (Some e, st') \<Rightarrow>
             (None,
              emit (MetricIncrement ''datadog.tracer.node.plugin.errors'')
                (emit (LogDebug (''Error while trying to patch '' @ meta_name m @ ''. The plugin has been disabled.''))
                   (unload C plugin (emit (LogError e) st'))))))"

text \<open>\<^verbatim>\<open>_set (plugin, meta)\<close>.\<close>

definition set_plugin ::
  "'w collaborators \<Rightarrow> plugin \<Rightarrow> meta \<Rightarrow> 'w instrumenter \<Rightarrow> error option \<times> 'w instrumenter" where
  "set_plugin C plugin m st =
     (if meta_name m \<in> p_disabledPlugins st then
        (None, emit (LogDebug (''Plugin '' @ dquote @ meta_name m @ dquote @ '' was disabled via configuration option.'')) st)
      else load C plugin m (st\<lparr>p_plugins := AList.update plugin m (p_plugins st)\<rparr>))"

text \<open>
  \<^verbatim>\<open>use (name, config)\<close>. The second argument is a boolean, an object or left out.
\<close>

datatype config_arg = ConfigUndefined | ConfigBool bool | ConfigObject config

definition use ::
  "'w collaborators \<Rightarrow> string \<Rightarrow> config_arg \<Rightarrow> 'w instrumenter \<Rightarrow> error option \<times> 'w instrumenter" where
  "use C name arg st =
     (let cfg = getConfig (source C) name
                  (case arg of
                     ConfigUndefined \<Rightarrow> None
                   | ConfigBool b \<Rightarrow> Some \<lparr>enabled = Some b, analytics = None\<rparr>
                   | ConfigObject c \<Rightarrow> Some c);
          st1 = (case set_plugin C (lookup_plugin C (toLowerCase name))
                        \<lparr>meta_name = name, meta_config = cfg\<rparr> st of
                   (None, st') \<Rightarrow> st'
                 | (Some e, st') \<Rightarrow>
                     emit (LogDebug (''Could not find a plugin named '' @ dquote @ name @ dquote @ ''.'')) st')
      in if p_enabled st1 then (None, loader_reload st1) else (None, st1))"

text \<open>
  \<^verbatim>\<open>enable (config)\<close>; the flag is false when \<^verbatim>\<open>config.plugins === false\<close>. The names are
  filtered before any of them is registered.
\<close>

fun set_all ::
  "'w collaborators \<Rightarrow> string list \<Rightarrow> 'w instrumenter \<Rightarrow> error option \<times> 'w instrumenter" where
  "set_all C [] st = (None, st)"
| "set_all C (name # names) st =
     (case set_plugin C (lookup_plugin C name)
             \<lparr>meta_name = name, meta_config = getConfig (source C) name None\<rparr> st of
        (Some e, st') \<Rightarrow> (Some e, st')
      | (None, st') \<Rightarrow> set_all C names st')"

definition unregistered_names :: "'w collaborators \<Rightarrow> 'w instrumenter \<Rightarrow> string list" where
  "unregistered_names C st =
     filter (\<lambda>name. map_of (p_plugins st) (lookup_plugin C name) = None) (map fst (plugins C))"

definition enable :: "'w collaborators \<Rightarrow> bool \<Rightarrow> 'w instrumenter \<Rightarrow> error option \<times> 'w instrumenter" where
  "enable C with_plugins st =
     (let st1 = st\<lparr>p_enabled := True\<rparr> in
      case (if with_plugins then set_all C (unregistered_names C st1) st1 else (None, st1)) of
        (Some e, st2) \<Rightarrow> (Some e, st2)
      | (None, st2) \<Rightarrow> (None, loader_reload st2))"

text \<open>\<^verbatim>\<open>disable ()\<close>.\<close>

definition disable :: "'w collaborators \<Rightarrow> 'w instrumenter \<Rightarrow> 'w instrumenter" where
  "disable C st =
     (let st1 = fold (unpatch C) (map fst (p_instrumented st)) st
      in loader_reload (st1\<lparr>p_plugins := [], p_enabled := False\<rparr>))"

text \<open>\<^verbatim>\<open>preload ()\<close> and the constructor.\<close>

definition preload :: "'w collaborators \<Rightarrow> 'w instrumenter \<Rightarrow> 'w instrumenter" where
  "preload C st =
     (if \<not> has_preload C then st
      else emit (LoaderPreload
                   (fold (\<lambda>name m. AList.update (lookup_plugin C name)
                                     \<lparr>meta_name = name, meta_config = getConfig (source C) name None\<rparr> m)
                      (unregistered_names C st) [])) st)"

definition new_instrumenter :: "'w collaborators \<Rightarrow> 'w \<Rightarrow> 'w instrumenter" where
  "new_instrumenter C w =
     preload C \<lparr>p_enabled = False, p_plugins = [], p_instrumented = [],
                p_disabledPlugins = collectDisabledPlugins (source C), world = w, effects = []\<rparr>"

subsection \<open>Notions of the statements\<close>

text \<open>
  The spec's words for the sample rate, to compare \<^verbatim>\<open>getConfig\<close> with: the number the
  looked-up value stands for, clamped to \<open>[0, 1]\<close>.
\<close>

fun clamped_rate :: "number \<Rightarrow> number" where
  "clamped_rate NaN = NaN"
| "clamped_rate NegInfinity = Finite 0"
| "clamped_rate PosInfinity = Finite 1"
| "clamped_rate (Finite r) = Finite (if r < 0 then 0 else if 1 < r then 1 else r)"

text \<open>What \<^verbatim>\<open>wrap\<close> validates of a member: it is there and \<^verbatim>\<open>typeof\<close> gives \<^verbatim>\<open>'function'\<close>.\<close>

definition member_is_function :: "heap \<Rightarrow> val \<Rightarrow> string \<Rightarrow> bool" where
  "member_is_function h nodule name =
     (case get h nodule (StrKey name) of Inl e \<Rightarrow> False | Inr v \<Rightarrow> is_function h v)"


text \<open>
  An integration loads cleanly when the loader finds the loaded exports of each of its
  instrumentations and the \<^verbatim>\<open>patch\<close> capability throws on none of them.
\<close>

definition instrumentation_loads_cleanly :: "'w collaborators \<Rightarrow> plugin \<Rightarrow> bool" where
  "instrumentation_loads_cleanly C i =
     (case i of
        Instrumentation k \<Rightarrow>
          (case modules_of C i of
             Inl err \<Rightarrow> False
           | Inr es \<Rightarrow> \<forall>e\<in>set es. \<forall>cfg w. fst (patch_cap C k e cfg w) = None)
      | _ \<Rightarrow> False)"

definition loads_cleanly :: "'w collaborators \<Rightarrow> plugin \<Rightarrow> bool" where
  "loads_cleanly C p = (\<forall>i\<in>set (concat_plugin p). instrumentation_loads_cleanly C i)"


subsection \<open>Example inputs\<close>

text \<open>
  A configuration source over a list of variables: the parsers accept the explicit
  strings, and two decimal strings stand for their numbers.
\<close>

definition example_source :: "(string \<times> string) list \<Rightarrow> config_source" where
  "example_source vars =
     \<lparr>env = map_of vars,
      isTrue = (\<lambda>v. v = Some ''true'' \<or> v = Some ''1''),
      isFalse = (\<lambda>v. v = Some ''false'' \<or> v = Some ''0''),
      stringToNumber = (\<lambda>s. if s = ''0.5'' then Finite (1 / 2)
                             else if s = ''0.3'' then Finite (3 / 10) else NaN)\<rparr>"

text \<open>A heap with one object that is not callable.\<close>

definition plain_object_heap :: heap where
  "plain_object_heap = \<lparr>objects = [\<lparr>props = [], body = None\<rparr>], shimmer_log = []\<rparr>"

text \<open>
  A module \<open>A\<close> (address 0) with the functions \<open>f\<close> (address 1) and \<open>g\<close> (address 2),
  and the same heap with a module \<open>B\<close> (address 3) that has \<open>f\<close> (address 4) but no \<open>g\<close>.
\<close>

definition module_heap :: heap where
  "module_heap =
     \<lparr>objects = [\<lparr>props = [(StrKey ''f'', \<lparr>prop_val = Ref 1, enumerable = True\<rparr>),
                            (StrKey ''g'', \<lparr>prop_val = Ref 2, enumerable = True\<rparr>)], body = None\<rparr>,
                 \<lparr>props = [], body = Some (Native 0)\<rparr>,
                 \<lparr>props = [], body = Some (Native 1)\<rparr>],
      shimmer_log = []\<rparr>"

definition two_module_heap :: heap where
  "two_module_heap =
     \<lparr>objects = objects module_heap @
                [\<lparr>props = [(StrKey ''f'', \<lparr>prop_val = Ref 4, enumerable = True\<rparr>)], body = None\<rparr>,
                 \<lparr>props = [], body = Some (Native 2)\<rparr>],
      shimmer_log = []\<rparr>"

text \<open>
  The module after \<^verbatim>\<open>prepatch\<close> has staged \<open>f\<close>: \<^verbatim>\<open>prepatch\<close> wraps the member with
  \<^verbatim>\<open>getPrepatchWrappedFunction\<close>.
\<close>

definition staged_heap :: heap where
  "staged_heap = snd (wrap [Ref 0] [''f''] PrepatchFactory module_heap)"

text \<open>
  A catalog of two integrations over a world without content: \<open>foo\<close> (instrumentation 0)
  patches without error, the \<^verbatim>\<open>patch\<close> of \<open>bar\<close> (instrumentation 1) throws. For each
  the loader has one exports object loaded; it throws on a value that is not an
  instrumentation. The argument is the value of \<^verbatim>\<open>DD_TRACE_DISABLED_PLUGINS\<close>.
\<close>

definition example_collaborators :: "string option \<Rightarrow> unit collaborators" where
  "example_collaborators disabled_var =
     \<lparr>plugins = [(''foo'', Instrumentation 0), (''bar'', Instrumentation 1)],
      source = example_source (case disabled_var of
                                 None \<Rightarrow> []
                               | Some v \<Rightarrow> [(''DD_TRACE_DISABLED_PLUGINS'', v)]),
      patch_cap = (\<lambda>k e cfg w. if k = 1 then (Some (Error ''broken''), w) else (None, w)),
      unpatch_cap = (\<lambda>k e w. (None, w)),
      modules_of = (\<lambda>p. case p of Instrumentation k \<Rightarrow> Inr [10 + k] | _ \<Rightarrow> Inl TypeError),
      has_preload = False\<rparr>"

text \<open>
  An orchestrator that has patched the exports object 10 with instrumentation 0, and
  the enabled orchestrator in which \<open>foo\<close> and \<open>bar\<close> have been registered by hand.
\<close>

definition patched_state :: "unit instrumenter" where
  "patched_state =
     snd (patch (example_collaborators None) (Instrumentation 0) 10 empty_config
            (new_instrumenter (example_collaborators None) ()))"

definition registered_state :: "unit instrumenter" where
  "registered_state =
     (new_instrumenter (example_collaborators None) ())
       \<lparr>p_enabled := True,
        p_plugins := [(Instrumentation 0, \<lparr>meta_name = ''foo'', meta_config = empty_config\<rparr>),
                      (Instrumentation 1, \<lparr>meta_name = ''bar'', meta_config = empty_config\<rparr>)]\<rparr>"

section \<open>Properties\<close>

lemma isNaN_iff: "isNaN x \<longleftrightarrow> x = NaN"
  by (cases x) simp_all

lemma clamp_is_clamped_rate: "math_min (math_max x (Finite 0)) (Finite 1) = clamped_rate x"
  by (cases x) auto

lemma clamped_rate_NaN: "isNaN (clamped_rate x) \<longleftrightarrow> isNaN x"
  by (cases x) simp_all

lemma clamped_rate_range:
  "\<not> isNaN x \<Longrightarrow> \<exists>r. clamped_rate x = Finite r \<and> 0 \<le> r \<and> r \<le> 1"
  by (cases x) simp_all

subsection \<open>Configuration resolver\<close>

text \<open>
  Claim C9. For a name that is not empty, the \<^verbatim>\<open>analytics\<close> field of the resolved
  configuration is decided by the first rule that applies: \<^verbatim>\<open>false\<close> when
  \<^verbatim>\<open>ANALYTICS_ENABLED\<close> parses as false; otherwise, when \<^verbatim>\<open>ANALYTICS_SAMPLE_RATE\<close> converts
  to a number, that number clamped to \<open>[0, 1]\<close>; otherwise \<^verbatim>\<open>true\<close> when
  \<^verbatim>\<open>ANALYTICS_ENABLED\<close> parses as true; otherwise the resolver does not set the field: it
  is what the caller's configuration had, and unset when the caller gave none.
\<close>

theorem getConfig_analytics_precedence:
  "name \<noteq> [] \<Longrightarrow>
   analytics (getConfig S name config_arg) =
     (if isFalse S (cleanEnv S (name @ ''_ANALYTICS_ENABLED'')) then Some (AnalyticsBool False)
      else if \<not> isNaN (toNumber S (cleanEnv S (name @ ''_ANALYTICS_SAMPLE_RATE'')))
        then Some (AnalyticsRate (clamped_rate (toNumber S (cleanEnv S (name @ ''_ANALYTICS_SAMPLE_RATE'')))))
      else if isTrue S (cleanEnv S (name @ ''_ANALYTICS_ENABLED'')) then Some (AnalyticsBool True)
      else (case config_arg of None \<Rightarrow> None | Some c \<Rightarrow> analytics c))
   \<and> (\<not> isNaN (toNumber S (cleanEnv S (name @ ''_ANALYTICS_SAMPLE_RATE''))) \<longrightarrow>
        (\<exists>r. clamped_rate (toNumber S (cleanEnv S (name @ ''_ANALYTICS_SAMPLE_RATE''))) = Finite r
              \<and> 0 \<le> r \<and> r \<le> 1))"
  by (auto simp: getConfig_def Let_def clamp_is_clamped_rate clamped_rate_NaN empty_config_def
      clamped_rate_range split: option.splits)

text \<open>
  The scenarios of the spec: analytics disabled beside a sample rate, a sample rate alone,
  analytics enabled alone, and no variable at all.
\<close>

theorem getConfig_analytics_precedence_witness:
  "analytics (getConfig (example_source [(''DD_TRACE_FOO_ANALYTICS_ENABLED'', ''false''),
       (''DD_TRACE_FOO_ANALYTICS_SAMPLE_RATE'', ''0.5'')]) ''foo'' None) = Some (AnalyticsBool False)
   \<and> analytics (getConfig (example_source [(''DD_TRACE_FOO_ANALYTICS_SAMPLE_RATE'', ''0.3'')]) ''foo'' None)
       = Some (AnalyticsRate (Finite (3 / 10)))
   \<and> analytics (getConfig (example_source [(''DD_TRACE_FOO_ANALYTICS_ENABLED'', ''true'')]) ''foo'' None)
       = Some (AnalyticsBool True)
   \<and> analytics (getConfig (example_source []) ''foo'' None) = None"
proof -
  have name: "''foo'' \<noteq> []"
    by simp
  let ?S1 = "example_source [(''DD_TRACE_FOO_ANALYTICS_ENABLED'', ''false''),
       (''DD_TRACE_FOO_ANALYTICS_SAMPLE_RATE'', ''0.5'')]"
  let ?S2 = "example_source [(''DD_TRACE_FOO_ANALYTICS_SAMPLE_RATE'', ''0.3'')]"
  let ?S3 = "example_source [(''DD_TRACE_FOO_ANALYTICS_ENABLED'', ''true'')]"
  let ?S4 = "example_source []"
  have s1: "isFalse ?S1 (cleanEnv ?S1 (''foo'' @ ''_ANALYTICS_ENABLED''))"
    by code_simp
  have s2: "\<not> isFalse ?S2 (cleanEnv ?S2 (''foo'' @ ''_ANALYTICS_ENABLED''))"
    "toNumber ?S2 (cleanEnv ?S2 (''foo'' @ ''_ANALYTICS_SAMPLE_RATE'')) = Finite (3 / 10)"
    by code_simp+
  have s3: "\<not> isFalse ?S3 (cleanEnv ?S3 (''foo'' @ ''_ANALYTICS_ENABLED''))"
    "toNumber ?S3 (cleanEnv ?S3 (''foo'' @ ''_ANALYTICS_SAMPLE_RATE'')) = NaN"
    "isTrue ?S3 (cleanEnv ?S3 (''foo'' @ ''_ANALYTICS_ENABLED''))"
    by code_simp+
  have s4: "\<not> isFalse ?S4 (cleanEnv ?S4 (''foo'' @ ''_ANALYTICS_ENABLED''))"
    "toNumber ?S4 (cleanEnv ?S4 (''foo'' @ ''_ANALYTICS_SAMPLE_RATE'')) = NaN"
    "\<not> isTrue ?S4 (cleanEnv ?S4 (''foo'' @ ''_ANALYTICS_ENABLED''))"
    by code_simp+
  have "analytics (getConfig ?S1 ''foo'' None) = Some (AnalyticsBool False)"
    using getConfig_analytics_precedence [OF name, of ?S1 None] s1 by simp
  moreover have "analytics (getConfig ?S2 ''foo'' None) = Some (AnalyticsRate (Finite (3 / 10)))"
    using getConfig_analytics_precedence [OF name, of ?S2 None] s2 by simp
  moreover have "analytics (getConfig ?S3 ''foo'' None) = Some (AnalyticsBool True)"
    using getConfig_analytics_precedence [OF name, of ?S3 None] s3 by simp
  moreover have "analytics (getConfig ?S4 ''foo'' None) = None"
    using getConfig_analytics_precedence [OF name, of ?S4 None] s4 by simp
  ultimately show ?thesis
    by blast
qed

subsection \<open>Wrap engine\<close>

text \<open>
  Claim C10. For an exports value that is not a function, \<^verbatim>\<open>wrapExport\<close> returns the
  value itself and the heap unchanged: no shim is allocated and no wrapper reference is
  stored.
\<close>

theorem wrapExport_not_callable:
  "\<not> is_function h moduleExports \<Longrightarrow> wrapExport moduleExports wrapper_fn h = (moduleExports, h)"
  by (simp add: wrapExport_def)

theorem wrapExport_not_callable_witness:
  "\<not> is_function plain_object_heap (Ref 0)
   \<and> wrapExport (Ref 0) Undefined plain_object_heap = (Ref 0, plain_object_heap)
   \<and> wrapExport Undefined Undefined plain_object_heap = (Undefined, plain_object_heap)"
proof -
  have a: "\<not> is_function plain_object_heap (Ref 0)"
    by (simp add: is_function_def deref_def plain_object_heap_def)
  have b: "\<not> is_function plain_object_heap Undefined"
    by (simp add: is_function_def)
  show ?thesis
    using a wrapExport_not_callable [OF a] wrapExport_not_callable [OF b] by simp
qed

subsection \<open>The heap operations\<close>





lemma alloc_eq: "alloc h ob = (length (objects h), snd (alloc h ob))"
  by (simp add: alloc_def)




lemma length_log: "length (objects (h\<lparr>shimmer_log := l\<rparr>)) = length (objects h)"
  by simp
















subsection \<open>Atomic validation\<close>

lemma validate_names_None:
  "validate_names h nodule names = None \<longleftrightarrow> (\<forall>m\<in>set names. member_is_function h nodule m)"
  by (induction names) (auto simp: member_is_function_def split: sum.splits)

lemma validate_None:
  "validate h nodules names = None \<longleftrightarrow>
     (\<forall>n\<in>set nodules. \<forall>m\<in>set names. member_is_function h n m)"
proof (induction nodules)
  case Nil
  then show ?case
    by simp
next
  case (Cons n ns)
  then show ?case
    using validate_names_None [of h n names] by (cases "validate_names h n names") auto
qed

text \<open>
  Claim C3. When some member name is missing or not callable on some target of the batch,
  \<^verbatim>\<open>wrap\<close> throws and the heap is the one it was called in: no marker is set and no
  member is replaced.
\<close>

theorem wrap_atomic:
  assumes "nodule \<in> set nodules" and "name \<in> set names"
    and "\<not> member_is_function h nodule name"
  shows "\<exists>e. wrap nodules names w h = (Some e, h)"
proof -
  have "validate h nodules names \<noteq> None"
    using assms validate_None by blast
  then obtain e where "validate h nodules names = Some e"
    by blast
  then show ?thesis
    by (simp add: wrap_def)
qed

text \<open>The scenario of the spec: targets \<open>A\<close> and \<open>B\<close>, members \<open>f\<close> and \<open>g\<close>, and no \<open>B.g\<close>.\<close>

theorem wrap_atomic_witness:
  "\<not> member_is_function two_module_heap (Ref 3) ''g''
   \<and> fst (wrap [Ref 0, Ref 3] [''f'', ''g''] (Factory 7) two_module_heap) \<noteq> None
   \<and> snd (wrap [Ref 0, Ref 3] [''f'', ''g''] (Factory 7) two_module_heap) = two_module_heap"
proof -
  have missing: "\<not> member_is_function two_module_heap (Ref 3) ''g''"
    by code_simp
  have "Ref 3 \<in> set [Ref 0, Ref 3]" and "''g'' \<in> set [''f'', ''g'']"
    by simp_all
  from wrap_atomic [OF this missing, of "Factory 7"] missing show ?thesis
    by auto
qed

subsection \<open>The return inside the loops\<close>

text \<open>
  Claim C4 fails on the code. The module \<open>A\<close> has \<open>f\<close> staged by \<^verbatim>\<open>prepatch\<close> and an
  ordinary \<open>g\<close>; both pass the validation. \<^verbatim>\<open>wrap\<close> of \<open>f\<close> and \<open>g\<close> updates the
  indirection of \<open>f\<close> and returns: \<open>g\<close> is the function it was, without the marker, and
  the interception primitive is not called.
\<close>

theorem wrap_returns_after_marked_member:
  "validate staged_heap [Ref 0] [''f'', ''g''] = None
   \<and> fst (wrap [Ref 0] [''f'', ''g''] (Factory 7) staged_heap) = None
   \<and> get (snd (wrap [Ref 0] [''f'', ''g''] (Factory 7) staged_heap)) (Ref 3) (StrKey ''_datadog_wrapped'')
       = Inr (Ref 4)
   \<and> get (snd (wrap [Ref 0] [''f'', ''g''] (Factory 7) staged_heap)) (Ref 0) (StrKey ''g'') = Inr (Ref 2)
   \<and> deref (snd (wrap [Ref 0] [''f'', ''g''] (Factory 7) staged_heap)) 2
       = Some \<lparr>props = [], body = Some (Native 1)\<rparr>
   \<and> shimmer_log (snd (wrap [Ref 0] [''f'', ''g''] (Factory 7) staged_heap)) = shimmer_log staged_heap"
  by code_simp

subsection \<open>Chained wraps\<close>













subsection \<open>Orchestrator: what each operation leaves alone\<close>

lemma emit_fields:
  "p_enabled (emit x st) = p_enabled st"
  "p_plugins (emit x st) = p_plugins st"
  "p_instrumented (emit x st) = p_instrumented st"
  "p_disabledPlugins (emit x st) = p_disabledPlugins st"
  "world (emit x st) = world st"
  "effects (emit x st) = effects st @ [x]"
  by (simp_all add: emit_def)

lemma instrumented_of_emit: "instrumented_of (emit x st) i = instrumented_of st i"
  by (simp add: instrumented_of_def emit_fields)

lemma call_patch_frame:
  "p_enabled (snd (call_patch C i e cfg st)) = p_enabled st"
  "p_plugins (snd (call_patch C i e cfg st)) = p_plugins st"
  "p_instrumented (snd (call_patch C i e cfg st)) = p_instrumented st"
  "p_disabledPlugins (snd (call_patch C i e cfg st)) = p_disabledPlugins st"
  by (auto simp: call_patch_def emit_fields split: plugin.splits prod.splits)

lemma patch_frame:
  "p_enabled (snd (patch C i e cfg st)) = p_enabled st"
  "p_plugins (snd (patch C i e cfg st)) = p_plugins st"
  "p_disabledPlugins (snd (patch C i e cfg st)) = p_disabledPlugins st"
  by (auto simp: patch_def Let_def call_patch_frame split: option.splits)

lemma patch_instrumented:
  "instrumented_of (snd (patch C i e cfg st)) j =
     (if j = i \<and> e \<notin> set (instrumented_of st i) then instrumented_of st i @ [e]
      else instrumented_of st j)"
  by (auto simp: patch_def Let_def call_patch_frame instrumented_of_def update_conv'
      split: option.splits)

lemma patch_recorded:
  "e \<in> set (instrumented_of st i) \<Longrightarrow> patch C i e cfg st = (None, st)"
  by (auto simp: patch_def Let_def instrumented_of_def split: option.splits)

lemma patch_fresh_effects:
  "e \<notin> set (instrumented_of st (Instrumentation k)) \<Longrightarrow>
   effects (snd (patch C (Instrumentation k) e cfg st)) = effects st @ [PatchCalled k e cfg]"
  by (auto simp: patch_def Let_def instrumented_of_def call_patch_def emit_fields update_conv'
      split: option.splits prod.splits)

lemma unpatch_one_frame:
  "p_enabled (unpatch_one C i e st) = p_enabled st"
  "p_plugins (unpatch_one C i e st) = p_plugins st"
  "p_instrumented (unpatch_one C i e st) = p_instrumented st"
  "p_disabledPlugins (unpatch_one C i e st) = p_disabledPlugins st"
  by (auto simp: unpatch_one_def emit_fields Let_def split: plugin.splits prod.splits option.splits)

lemma fold_unpatch_one_frame:
  "p_enabled (fold (unpatch_one C i) es st) = p_enabled st
   \<and> p_plugins (fold (unpatch_one C i) es st) = p_plugins st
   \<and> p_instrumented (fold (unpatch_one C i) es st) = p_instrumented st
   \<and> p_disabledPlugins (fold (unpatch_one C i) es st) = p_disabledPlugins st"
  by (induction es arbitrary: st) (simp_all add: unpatch_one_frame)

lemma unpatch_frame:
  "p_enabled (unpatch C i st) = p_enabled st"
  "p_plugins (unpatch C i st) = p_plugins st"
  "p_instrumented (unpatch C i st) = p_instrumented st"
  "p_disabledPlugins (unpatch C i st) = p_disabledPlugins st"
  by (simp_all add: unpatch_def fold_unpatch_one_frame split: option.splits)

lemma instrumented_of_unpatch: "instrumented_of (unpatch C i st) j = instrumented_of st j"
  by (simp add: instrumented_of_def unpatch_frame)

lemma unload_instrumentation_frame:
  "p_enabled (unload_instrumentation C i st) = p_enabled st"
  "p_plugins (unload_instrumentation C i st) = p_plugins st"
  "p_instrumented (unload_instrumentation C i st) = AList.delete i (p_instrumented st)"
  by (simp_all add: unload_instrumentation_def Let_def unpatch_frame)

lemma fold_unload_instrumentation_frame:
  "p_enabled (fold (unload_instrumentation C) is st) = p_enabled st
   \<and> p_plugins (fold (unload_instrumentation C) is st) = p_plugins st
   \<and> map_of (p_instrumented (fold (unload_instrumentation C) is st)) j =
       (if j \<in> set is then None else map_of (p_instrumented st) j)"
  by (induction "is" arbitrary: st) (auto simp: unload_instrumentation_frame delete_conv')

lemma unload_frame:
  "p_enabled (unload C p st) = p_enabled st"
  "map_of (p_plugins (unload C p st)) q = (if q = p then None else map_of (p_plugins st) q)"
  "map_of (p_instrumented (unload C p st)) j =
     (if j \<in> set (concat_plugin p) then None else map_of (p_instrumented st) j)"
  by (auto simp: unload_def Let_def emit_fields fold_unload_instrumentation_frame delete_conv'
      split: option.splits)

lemma patch_all_frame:
  "p_enabled (snd (patch_all C i cfg es st)) = p_enabled st
   \<and> p_plugins (snd (patch_all C i cfg es st)) = p_plugins st"
proof (induction es arbitrary: st)
  case Nil
  then show ?case by simp
next
  case (Cons e es)
  obtain r st' where p: "patch C i e cfg st = (r, st')"
    by (cases "patch C i e cfg st")
  have "p_enabled st' = p_enabled st" and "p_plugins st' = p_plugins st"
    using patch_frame(1,2)[of C i e cfg st] p by simp_all
  then show ?case
    using p Cons.IH[of st'] by (cases r) simp_all
qed

lemma loader_load_frame:
  "p_enabled (snd (loader_load C i cfg st)) = p_enabled st"
  "p_plugins (snd (loader_load C i cfg st)) = p_plugins st"
  by (simp_all add: loader_load_def patch_all_frame split: sum.splits)

lemma load_all_frame:
  "p_enabled (snd (load_all C is cfg st)) = p_enabled st
   \<and> p_plugins (snd (load_all C is cfg st)) = p_plugins st"
proof (induction "is" arbitrary: st)
  case Nil
  then show ?case by simp
next
  case (Cons i "is")
  obtain r st' where l: "loader_load C i cfg st = (r, st')"
    by (cases "loader_load C i cfg st")
  have "p_enabled st' = p_enabled st" and "p_plugins st' = p_plugins st"
    using loader_load_frame[of C i cfg st] l by simp_all
  then show ?case
    using l Cons.IH[of st'] by (cases r) simp_all
qed

lemma load_step_frame:
  "p_enabled (snd (load_step C p m st)) = p_enabled st"
  "p_plugins (snd (load_step C p m st)) = p_plugins st"
  by (simp_all add: load_step_def load_all_frame emit_fields)

lemma load_never_throws: "fst (load C p m st) = None"
  by (simp add: load_def split: prod.splits option.splits)

lemma load_failed:
  assumes "p_enabled st" and "load_step C p m st = (Some e, st')"
  shows "snd (load C p m st) =
     emit (MetricIncrement ''datadog.tracer.node.plugin.errors'')
       (emit (LogDebug (''Error while trying to patch '' @ meta_name m @ ''. The plugin has been disabled.''))
          (unload C p (emit (LogError e) st')))"
  using assms by (simp add: load_def)

lemma load_succeeded:
  assumes "p_enabled st" and "load_step C p m st = (None, st')"
  shows "load C p m st = (None, st')"
  using assms by (simp add: load_def)

lemma patch_no_throw:
  assumes "\<forall>cfg w. fst (patch_cap C k e cfg w) = None"
  shows "fst (patch C (Instrumentation k) e cfg st) = None"
proof -
  have "fst (patch_cap C k e cfg (world st')) = None" for st' :: "'a instrumenter"
    using assms by simp
  then have "fst (call_patch C (Instrumentation k) e cfg st') = None" for st' :: "'a instrumenter"
    by (simp add: call_patch_def split_beta)
  then show ?thesis
    by (simp add: patch_def Let_def)
qed

lemma patch_records: "e \<in> set (instrumented_of (snd (patch C i e cfg st)) i)"
  by (simp add: patch_instrumented)

lemma patch_mono: "set (instrumented_of st j) \<subseteq> set (instrumented_of (snd (patch C i e cfg st)) j)"
  by (auto simp: patch_instrumented)

lemma patch_all_mono:
  "set (instrumented_of st j) \<subseteq> set (instrumented_of (snd (patch_all C i cfg es st)) j)"
proof (induction es arbitrary: st)
  case Nil
  then show ?case by simp
next
  case (Cons e es)
  obtain r st' where p: "patch C i e cfg st = (r, st')"
    by (cases "patch C i e cfg st")
  have "set (instrumented_of st j) \<subseteq> set (instrumented_of st' j)"
    using patch_mono[of st j C i e cfg] p by simp
  then show ?case
    using p Cons.IH[of st'] by (cases r) auto
qed

lemma patch_all_clean:
  assumes "\<forall>e\<in>set es. \<forall>cfg w. fst (patch_cap C k e cfg w) = None"
  shows "fst (patch_all C (Instrumentation k) cfg es st) = None
         \<and> set es \<subseteq> set (instrumented_of (snd (patch_all C (Instrumentation k) cfg es st)) (Instrumentation k))"
  using assms
proof (induction es arbitrary: st)
  case Nil
  then show ?case by simp
next
  case (Cons e es)
  obtain r st' where p: "patch C (Instrumentation k) e cfg st = (r, st')"
    by (cases "patch C (Instrumentation k) e cfg st")
  have r: "r = None"
    using Cons.prems patch_no_throw[of C k e cfg st] p by simp
  have "e \<in> set (instrumented_of st' (Instrumentation k))"
    using patch_records[of e C "Instrumentation k" cfg st] p by simp
  then have "e \<in> set (instrumented_of (snd (patch_all C (Instrumentation k) cfg es st')) (Instrumentation k))"
    using patch_all_mono by blast
  moreover have "fst (patch_all C (Instrumentation k) cfg es st') = None
      \<and> set es \<subseteq> set (instrumented_of (snd (patch_all C (Instrumentation k) cfg es st')) (Instrumentation k))"
    using Cons.IH[of st'] Cons.prems by simp
  ultimately show ?case
    using p r by simp
qed

lemma load_all_mono:
  "set (instrumented_of st j) \<subseteq> set (instrumented_of (snd (load_all C is cfg st)) j)"
proof (induction "is" arbitrary: st)
  case Nil
  then show ?case by simp
next
  case (Cons i "is")
  obtain r st' where l: "loader_load C i cfg st = (r, st')"
    by (cases "loader_load C i cfg st")
  have "set (instrumented_of st j) \<subseteq> set (instrumented_of (snd (loader_load C i cfg st)) j)"
    by (simp add: loader_load_def patch_all_mono split: sum.splits)
  then have "set (instrumented_of st j) \<subseteq> set (instrumented_of st' j)"
    using l by simp
  then show ?case
    using l Cons.IH[of st'] by (cases r) auto
qed

lemma loader_load_clean:
  assumes "instrumentation_loads_cleanly C i"
  shows "fst (loader_load C i cfg st) = None
         \<and> (\<forall>es. modules_of C i = Inr es \<longrightarrow> set es \<subseteq> set (instrumented_of (snd (loader_load C i cfg st)) i))"
proof -
  from assms obtain k es where i: "i = Instrumentation k" and es: "modules_of C i = Inr es"
    and ok: "\<forall>e\<in>set es. \<forall>cfg w. fst (patch_cap C k e cfg w) = None"
    by (auto simp: instrumentation_loads_cleanly_def split: plugin.splits sum.splits)
  show ?thesis
    using patch_all_clean[OF ok, of cfg st] i es by (simp add: loader_load_def)
qed

lemma load_all_clean:
  assumes "\<forall>i\<in>set is. instrumentation_loads_cleanly C i"
  shows "fst (load_all C is cfg st) = None
         \<and> (\<forall>i\<in>set is. \<forall>es. modules_of C i = Inr es \<longrightarrow>
               set es \<subseteq> set (instrumented_of (snd (load_all C is cfg st)) i))"
  using assms
proof (induction "is" arbitrary: st)
  case Nil
  then show ?case by simp
next
  case (Cons i "is")
  have i: "instrumentation_loads_cleanly C i" and rest: "\<forall>i\<in>set is. instrumentation_loads_cleanly C i"
    using Cons.prems by simp_all
  obtain r st' where l: "loader_load C i cfg st = (r, st')"
    by (cases "loader_load C i cfg st")
  have r: "r = None"
    using loader_load_clean[OF i, of cfg st] l by simp
  have here: "\<forall>es. modules_of C i = Inr es \<longrightarrow> set es \<subseteq> set (instrumented_of st' i)"
    using loader_load_clean[OF i, of cfg st] l by simp
  have later: "set (instrumented_of st' i) \<subseteq> set (instrumented_of (snd (load_all C is cfg st')) i)"
    by (rule load_all_mono)
  have eq: "load_all C (i # is) cfg st = load_all C is cfg st'"
    using l r by simp
  show ?case
    unfolding eq using here later Cons.IH[OF rest, of st'] by auto
qed

subsection \<open>Orchestrator: patching at most once\<close>

text \<open>
  Claim C2. For an instrumentation and an exports object not yet recorded for it, two
  calls of \<^verbatim>\<open>patch\<close> in sequence invoke the \<^verbatim>\<open>patch\<close> capability once: the first call
  appends that one invocation to the trace, and the second call, with any configuration,
  returns without an error and leaves the state as it is.
\<close>

theorem patch_at_most_once:
  assumes "moduleExports \<notin> set (instrumented_of st (Instrumentation k))"
  shows "effects (snd (patch C (Instrumentation k) moduleExports cfg st))
           = effects st @ [PatchCalled k moduleExports cfg]
         \<and> patch C (Instrumentation k) moduleExports cfg' (snd (patch C (Instrumentation k) moduleExports cfg st))
           = (None, snd (patch C (Instrumentation k) moduleExports cfg st))"
  using assms by (simp add: patch_fresh_effects patch_recorded patch_instrumented)

theorem patch_at_most_once_witness:
  "effects (snd (patch (example_collaborators None) (Instrumentation 0) 10 empty_config
                   (new_instrumenter (example_collaborators None) ())))
     = [PatchCalled 0 10 empty_config]
   \<and> patch (example_collaborators None) (Instrumentation 0) 10 empty_config
        (snd (patch (example_collaborators None) (Instrumentation 0) 10 empty_config
                (new_instrumenter (example_collaborators None) ())))
     = (None, snd (patch (example_collaborators None) (Instrumentation 0) 10 empty_config
                     (new_instrumenter (example_collaborators None) ())))"
proof -
  let ?st = "new_instrumenter (example_collaborators None) ()"
  have fresh: "10 \<notin> set (instrumented_of ?st (Instrumentation 0))"
    by code_simp
  have quiet: "effects ?st = []"
    by code_simp
  show ?thesis
    using patch_at_most_once [OF fresh, of "example_collaborators None" empty_config empty_config] quiet
    by simp
qed

subsection \<open>Orchestrator: disable and the InstrumentedSet\<close>

text \<open>
  Claim C5 fails on the code. \<^verbatim>\<open>disable\<close> calls \<^verbatim>\<open>unpatch\<close> for every instrumented
  instrumentation and never deletes from \<^verbatim>\<open>_instrumented\<close>, which \<^verbatim>\<open>unload\<close> does after
  its call of \<^verbatim>\<open>unpatch\<close>. After \<^verbatim>\<open>patch\<close> of instrumentation 0 and exports object 10
  and then \<^verbatim>\<open>disable\<close>, the pair is still recorded and a second \<^verbatim>\<open>patch\<close> of it does
  not invoke the capability, where after \<^verbatim>\<open>unload\<close> the entry is gone and \<^verbatim>\<open>patch\<close>
  invokes it again. After \<^verbatim>\<open>enable\<close>, \<^verbatim>\<open>disable\<close> and \<^verbatim>\<open>enable\<close> the integration
  \<open>foo\<close> is registered and its component loaded, and its \<^verbatim>\<open>patch\<close> capability has been
  invoked once, before the \<^verbatim>\<open>disable\<close>.
\<close>

theorem disable_keeps_instrumented_entry:
  "map_of (p_instrumented patched_state) (Instrumentation 0) = Some [10]
   \<and> map_of (p_instrumented (disable (example_collaborators None) patched_state))
        (Instrumentation 0) = Some [10]
   \<and> fst (patch (example_collaborators None) (Instrumentation 0) 10 empty_config
             (disable (example_collaborators None) patched_state)) = None
   \<and> effects (snd (patch (example_collaborators None) (Instrumentation 0) 10 empty_config
                 (disable (example_collaborators None) patched_state)))
       = effects (disable (example_collaborators None) patched_state)
   \<and> map_of (p_instrumented (unload (example_collaborators None) (Instrumentation 0) patched_state))
        (Instrumentation 0) = None
   \<and> effects (snd (patch (example_collaborators None) (Instrumentation 0) 10 empty_config
                 (unload (example_collaborators None) (Instrumentation 0) patched_state)))
       = effects (unload (example_collaborators None) (Instrumentation 0) patched_state)
           @ [PatchCalled 0 10 empty_config]
   \<and> map_of (p_plugins (snd (enable (example_collaborators None) True
         (disable (example_collaborators None)
            (snd (enable (example_collaborators None) True
                    (new_instrumenter (example_collaborators None) ()))))))) (Instrumentation 0)
       = Some \<lparr>meta_name = ''foo'', meta_config = empty_config\<rparr>
   \<and> filter (\<lambda>x. case x of PatchCalled k e cfg \<Rightarrow> k = 0 | _ \<Rightarrow> False)
        (effects (snd (enable (example_collaborators None) True
           (disable (example_collaborators None)
              (snd (enable (example_collaborators None) True
                      (new_instrumenter (example_collaborators None) ())))))))
       = [PatchCalled 0 10 empty_config]
   \<and> UnpatchCalled 0 10 \<in> set (effects (snd (enable (example_collaborators None) True
           (disable (example_collaborators None)
              (snd (enable (example_collaborators None) True
                      (new_instrumenter (example_collaborators None) ())))))))"
  by code_simp

subsection \<open>Orchestrator: failure isolation\<close>

text \<open>
  Claim C1. When the engine is enabled and the load step of an integration throws,
  \<^verbatim>\<open>load\<close> returns without an error; afterwards the integration has no RegistrationEntry
  and none of its instrumentations has an InstrumentedSet entry, and the engine is still
  enabled. Every other registered integration is still registered, and one that loads
  cleanly loads afterwards: its \<^verbatim>\<open>load\<close> returns without an error, it stays registered,
  and the loaded exports of each of its instrumentations are recorded as patched.
\<close>

theorem load_failure_isolated:
  assumes en: "p_enabled st"
    and throws: "fst (load_step C X m st) \<noteq> None"
  shows "let st' = snd (load C X m st) in
           fst (load C X m st) = None
         \<and> map_of (p_plugins st') X = None
         \<and> (\<forall>i\<in>set (concat_plugin X). map_of (p_instrumented st') i = None)
         \<and> p_enabled st'
         \<and> (\<forall>Y mY. Y \<noteq> X \<and> map_of (p_plugins st) Y = Some mY \<and> loads_cleanly C Y \<longrightarrow>
               map_of (p_plugins st') Y = Some mY
             \<and> fst (load C Y mY st') = None
             \<and> map_of (p_plugins (snd (load C Y mY st'))) Y = Some mY
             \<and> (\<forall>i\<in>set (concat_plugin Y). \<forall>es. modules_of C i = Inr es \<longrightarrow>
                   set es \<subseteq> set (instrumented_of (snd (load C Y mY st')) i)))"
proof -
  obtain e st1 where step: "load_step C X m st = (Some e, st1)"
    using throws by (cases "load_step C X m st") auto
  define st' where "st' = snd (load C X m st)"
  have st'_eq: "st' =
     emit (MetricIncrement ''datadog.tracer.node.plugin.errors'')
       (emit (LogDebug (''Error while trying to patch '' @ meta_name m @ ''. The plugin has been disabled.''))
          (unload C X (emit (LogError e) st1)))"
    unfolding st'_def by (rule load_failed[OF en step])
  have st1: "p_enabled st1 = p_enabled st" "p_plugins st1 = p_plugins st"
    using load_step_frame[of C X m st] step by simp_all
  have caught: "fst (load C X m st) = None"
    by (rule load_never_throws)
  have unregistered: "map_of (p_plugins st') X = None"
    by (simp add: st'_eq emit_fields unload_frame)
  have uninstrumented: "\<forall>i\<in>set (concat_plugin X). map_of (p_instrumented st') i = None"
    by (simp add: st'_eq emit_fields unload_frame)
  have enabled': "p_enabled st'"
    using en st1 by (simp add: st'_eq emit_fields unload_frame)
  have others: "map_of (p_plugins st') Y = map_of (p_plugins st) Y" if "Y \<noteq> X" for Y
    using that st1 by (simp add: st'_eq emit_fields unload_frame)
  have later: "fst (load C Y mY st') = None
             \<and> map_of (p_plugins (snd (load C Y mY st'))) Y = Some mY
             \<and> (\<forall>i\<in>set (concat_plugin Y). \<forall>es. modules_of C i = Inr es \<longrightarrow>
                   set es \<subseteq> set (instrumented_of (snd (load C Y mY st')) i))"
    if Y: "Y \<noteq> X" "map_of (p_plugins st) Y = Some mY" "loads_cleanly C Y" for Y mY
  proof -
    have clean: "\<forall>i\<in>set (concat_plugin Y). instrumentation_loads_cleanly C i"
      using Y(3) by (simp add: loads_cleanly_def)
    obtain r st2 where s2: "load_step C Y mY st' = (r, st2)"
      by (cases "load_step C Y mY st'")
    have r: "r = None"
      using load_all_clean[OF clean, of "meta_config mY" "emit (enabled_metric mY) st'"] s2
      by (simp add: load_step_def)
    have recorded: "\<forall>i\<in>set (concat_plugin Y). \<forall>es. modules_of C i = Inr es \<longrightarrow>
                   set es \<subseteq> set (instrumented_of st2 i)"
      using load_all_clean[OF clean, of "meta_config mY" "emit (enabled_metric mY) st'"] s2
      by (simp add: load_step_def)
    have kept: "p_plugins st2 = p_plugins st'"
      using load_step_frame(2)[of C Y mY st'] s2 by simp
    have l: "load C Y mY st' = (None, st2)"
      using load_succeeded[OF enabled'] s2 r by simp
    show ?thesis
      using l recorded kept others[OF Y(1)] Y(2) by simp
  qed
  show ?thesis
    unfolding Let_def st'_def[symmetric]
    using caught unregistered uninstrumented enabled' others later by auto
qed

theorem load_failure_isolated_witness:
  "p_enabled registered_state
   \<and> fst (load_step (example_collaborators None) (Instrumentation 1)
             \<lparr>meta_name = ''bar'', meta_config = empty_config\<rparr> registered_state) \<noteq> None
   \<and> fst (load (example_collaborators None) (Instrumentation 1)
             \<lparr>meta_name = ''bar'', meta_config = empty_config\<rparr> registered_state) = None
   \<and> map_of (p_plugins (snd (load (example_collaborators None) (Instrumentation 1)
             \<lparr>meta_name = ''bar'', meta_config = empty_config\<rparr> registered_state))) (Instrumentation 1) = None
   \<and> map_of (p_instrumented (snd (load (example_collaborators None) (Instrumentation 1)
             \<lparr>meta_name = ''bar'', meta_config = empty_config\<rparr> registered_state))) (Instrumentation 1) = None
   \<and> fst (load (example_collaborators None) (Instrumentation 0)
             \<lparr>meta_name = ''foo'', meta_config = empty_config\<rparr>
             (snd (load (example_collaborators None) (Instrumentation 1)
                \<lparr>meta_name = ''bar'', meta_config = empty_config\<rparr> registered_state))) = None
   \<and> map_of (p_plugins (snd (load (example_collaborators None) (Instrumentation 0)
             \<lparr>meta_name = ''foo'', meta_config = empty_config\<rparr>
             (snd (load (example_collaborators None) (Instrumentation 1)
                \<lparr>meta_name = ''bar'', meta_config = empty_config\<rparr> registered_state))))) (Instrumentation 0)
       = Some \<lparr>meta_name = ''foo'', meta_config = empty_config\<rparr>
   \<and> 10 \<in> set (instrumented_of (snd (load (example_collaborators None) (Instrumentation 0)
             \<lparr>meta_name = ''foo'', meta_config = empty_config\<rparr>
             (snd (load (example_collaborators None) (Instrumentation 1)
                \<lparr>meta_name = ''bar'', meta_config = empty_config\<rparr> registered_state)))) (Instrumentation 0))"
proof -
  let ?C = "example_collaborators None"
  let ?bar = "\<lparr>meta_name = ''bar'', meta_config = empty_config\<rparr>"
  let ?foo = "\<lparr>meta_name = ''foo'', meta_config = empty_config\<rparr>"
  let ?st' = "snd (load ?C (Instrumentation 1) ?bar registered_state)"
  have en: "p_enabled registered_state"
    by code_simp
  have throws: "fst (load_step ?C (Instrumentation 1) ?bar registered_state) \<noteq> None"
    by code_simp
  have other: "Instrumentation 0 \<noteq> Instrumentation 1"
    by simp
  have registered: "map_of (p_plugins registered_state) (Instrumentation 0) = Some ?foo"
    by code_simp
  have clean: "loads_cleanly ?C (Instrumentation 0)"
    by (simp add: loads_cleanly_def instrumentation_loads_cleanly_def example_collaborators_def)
  have modules: "modules_of ?C (Instrumentation 0) = Inr [10]"
    by (simp add: example_collaborators_def)
  have member: "Instrumentation 0 \<in> set (concat_plugin (Instrumentation 0))"
    by simp
  note main = load_failure_isolated [OF en throws, unfolded Let_def]
  have x: "fst (load ?C (Instrumentation 1) ?bar registered_state) = None"
    "map_of (p_plugins ?st') (Instrumentation 1) = None"
    "\<forall>i\<in>set (concat_plugin (Instrumentation 1)). map_of (p_instrumented ?st') i = None"
    using main by blast+
  have y: "fst (load ?C (Instrumentation 0) ?foo ?st') = None
      \<and> map_of (p_plugins (snd (load ?C (Instrumentation 0) ?foo ?st'))) (Instrumentation 0) = Some ?foo
      \<and> (\<forall>i\<in>set (concat_plugin (Instrumentation 0)). \<forall>es. modules_of ?C i = Inr es \<longrightarrow>
            set es \<subseteq> set (instrumented_of (snd (load ?C (Instrumentation 0) ?foo ?st')) i))"
    using main other registered clean by blast
  then have "set [10] \<subseteq> set (instrumented_of (snd (load ?C (Instrumentation 0) ?foo ?st')) (Instrumentation 0))"
    using member modules by blast
  then show ?thesis
    using en throws x y by simp
qed

subsection \<open>Orchestrator: names without a catalog entry\<close>

text \<open>
  Claim C8 fails on the code. For a name without a catalog entry the lookup gives
  \<^verbatim>\<open>undefined\<close>, \<^verbatim>\<open>_set\<close> does not throw, and on an engine that is not enabled \<^verbatim>\<open>use\<close>
  leaves an entry for the key \<^verbatim>\<open>undefined\<close> in the registry, which was empty.
\<close>

theorem use_unknown_name_registers_undefined:
  "lookup_plugin (example_collaborators None) (toLowerCase ''nope'') = PluginUndefined
   \<and> p_plugins (new_instrumenter (example_collaborators None) ()) = []
   \<and> fst (use (example_collaborators None) ''nope'' ConfigUndefined
            (new_instrumenter (example_collaborators None) ())) = None
   \<and> p_plugins (snd (use (example_collaborators None) ''nope'' ConfigUndefined
                       (new_instrumenter (example_collaborators None) ())))
       = [(PluginUndefined, \<lparr>meta_name = ''nope'', meta_config = empty_config\<rparr>)]"
  by code_simp

subsection \<open>Orchestrator: the disabled set\<close>

text \<open>
  Claim C6 fails on the code. With \<open>foo\<close> in the disabled set, \<^verbatim>\<open>enable\<close> does not
  register the integration \<open>foo\<close>, but \<^verbatim>\<open>use\<close> with the name \<open>FOO\<close> finds the catalog
  entry of \<open>foo\<close> by the lower-cased name, tests the disabled set with the name as given,
  registers the integration and, its component being loaded, invokes its \<^verbatim>\<open>patch\<close>
  capability.
\<close>

theorem disabled_plugin_registered_under_other_case:
  "''foo'' \<in> p_disabledPlugins (new_instrumenter (example_collaborators (Some ''foo'')) ())
   \<and> map_of (p_plugins (snd (enable (example_collaborators (Some ''foo'')) True
                (new_instrumenter (example_collaborators (Some ''foo'')) ())))) (Instrumentation 0) = None
   \<and> map_of (p_plugins (snd (use (example_collaborators (Some ''foo'')) ''FOO'' (ConfigBool True)
        (snd (enable (example_collaborators (Some ''foo'')) True
                (new_instrumenter (example_collaborators (Some ''foo'')) ())))))) (Instrumentation 0)
      = Some \<lparr>meta_name = ''FOO'', meta_config = \<lparr>enabled = Some True, analytics = None\<rparr>\<rparr>
   \<and> PatchCalled 0 10 \<lparr>enabled = Some True, analytics = None\<rparr>
       \<in> set (effects (snd (use (example_collaborators (Some ''foo'')) ''FOO'' (ConfigBool True)
        (snd (enable (example_collaborators (Some ''foo'')) True
                (new_instrumenter (example_collaborators (Some ''foo'')) ()))))))"
  by code_simp

end
